theory Spec2Isabelle
  imports Main "HOL-Library.Word"
begin

section \<open>Strings, buffers and property maps of the runtime\<close>

text \<open>
  A JavaScript string is a sequence of 16-bit code units; a \<open>Buffer\<close> is a sequence
  of bytes. The \<open>changes\<close> objects of the change tracker are plain objects used as
  dictionaries from path strings to booleans: they are modelled as maps, a property
  assignment \<open>changes[k] = v\<close> as a map update and \<open>delete changes[k]\<close> as removal of
  the key. A map holds the own properties of the object. The value \<open>undefined\<close> of
  a string-typed variable is \<open>None\<close>.
\<close>

type_synonym code_unit = "16 word"
type_synonym jsstring = "code_unit list"
type_synonym byte = "8 word"
type_synonym buffer = "byte list"
type_synonym changes = "jsstring \<rightharpoonup> bool"

definition js :: "string \<Rightarrow> jsstring" where
  "js s = map of_char s"

abbreviation DQUOTE :: code_unit where "DQUOTE \<equiv> 0x22"
abbreviation BACKSLASH :: code_unit where "BACKSLASH \<equiv> 0x5C"
abbreviation TAB :: code_unit where "TAB \<equiv> 0x09"
abbreviation LF :: code_unit where "LF \<equiv> 0x0A"
abbreviation LETTER_R :: code_unit where "LETTER_R \<equiv> 0x52"

text \<open>\<open>s.charCodeAt(i)\<close>: the code unit at index \<open>i\<close>, or NaN (\<open>None\<close>) when the
  index is out of range.\<close>

definition charCodeAt :: "jsstring \<Rightarrow> int \<Rightarrow> code_unit option" where
  "charCodeAt s i = (if 0 \<le> i \<and> i < int (length s) then Some (s ! nat i) else None)"

text \<open>The index arithmetic of \<open>s.slice\<close>: a negative index counts from the end, and
  every index is clamped to \<open>0 .. s.length\<close>.\<close>

definition slice_index :: "nat \<Rightarrow> int \<Rightarrow> nat" where
  "slice_index len i = (if i < 0 then nat (max (int len + i) 0) else min (nat i) len)"

text \<open>\<open>s.slice(start, fin)\<close> and \<open>s.slice(start)\<close>.\<close>

definition slice :: "jsstring \<Rightarrow> int \<Rightarrow> int \<Rightarrow> jsstring" where
  "slice s start fin =
     (let len = length s; lo = slice_index len start; hi = slice_index len fin
      in take (hi - lo) (drop lo s))"

definition slice_from :: "jsstring \<Rightarrow> int \<Rightarrow> jsstring" where
  "slice_from s start = drop (slice_index (length s) start) s"

text \<open>\<open>s.split(sep)\<close> for a separator of one code unit. The result is never empty:
  the empty string splits into one empty field. The second branch of the case
  expression is never taken.\<close>

fun split :: "code_unit \<Rightarrow> jsstring \<Rightarrow> jsstring list" where
  "split sep [] = [[]]"
| "split sep (c # cs) =
     (if c = sep then [] # split sep cs
      else (case split sep cs of f # fs \<Rightarrow> (c # f) # fs | [] \<Rightarrow> [[c]]))"

text \<open>The regular expression class \<open>\d\<close> (without the unicode flag): the ASCII decimal
  digits. The digits of radix 8 are those \<open>parseInt(_, 8)\<close> accepts.\<close>

definition is_digit :: "code_unit \<Rightarrow> bool" where
  "is_digit c \<longleftrightarrow> 0x30 \<le> c \<and> c \<le> 0x39"

definition is_octal_digit :: "code_unit \<Rightarrow> bool" where
  "is_octal_digit c \<longleftrightarrow> 0x30 \<le> c \<and> c \<le> 0x37"

definition digit_value :: "code_unit \<Rightarrow> nat" where
  "digit_value c = unat c - 48"

text \<open>\<open>parseInt(s, 8)\<close> on a string that starts with neither white space nor a sign
  (the only strings the change tracker passes are three decimal digits): the value of
  the longest prefix of radix-8 digits, NaN (\<open>None\<close>) when that prefix is empty.\<close>

definition parseInt8 :: "jsstring \<Rightarrow> nat option" where
  "parseInt8 s =
     (let ds = takeWhile is_octal_digit s
      in if ds = [] then None else Some (foldl (\<lambda>a d. 8 * a + digit_value d) 0 ds))"

text \<open>\<open>String.fromCharCode(x)\<close>: one code unit, \<open>x\<close> modulo \<open>2 ^ 16\<close>; NaN gives 0.\<close>

definition fromCharCode :: "nat option \<Rightarrow> jsstring" where
  "fromCharCode x = [case x of None \<Rightarrow> 0 | Some n \<Rightarrow> of_nat n]"

section \<open>Filename normalization\<close>

definition octetToStr :: "jsstring \<Rightarrow> jsstring" where
  "octetToStr octet = fromCharCode (parseInt8 (slice_from octet 1))"

text \<open>\<open>s.replace(/\\\d\d\d/g, octetToStr)\<close>: the matches are found from left to right
  and do not overlap; each is a backslash and three decimal digits.\<close>

fun replace_octets :: "jsstring \<Rightarrow> jsstring" where
  "replace_octets (b # d1 # d2 # d3 # rest) =
     (if b = BACKSLASH \<and> is_digit d1 \<and> is_digit d2 \<and> is_digit d3
      then octetToStr [b, d1, d2, d3] @ replace_octets rest
      else b # replace_octets (d1 # d2 # d3 # rest))"
| "replace_octets s = s"

definition correctExtendedChars :: "jsstring \<Rightarrow> jsstring" where
  "correctExtendedChars s =
     (if charCodeAt s 0 = Some DQUOTE \<and> charCodeAt s (int (length s) - 1) = Some DQUOTE
      then replace_octets (slice s 1 (- 1))
      else s)"

section \<open>The command runner\<close>

text \<open>
  What the child process of one \<open>spawn\<close> call does, as \<open>exec\<close> observes it: either
  the \<open>error\<close> event (the program could not be started), or the \<open>close\<close> event
  after the \<open>data\<close> events of the two streams, each carrying one buffer. The exit
  status is delivered with \<open>close\<close>; the handler of \<open>exec\<close> ignores it.
\<close>

datatype proc_outcome =
  SpawnFailed
| Closed (stdout_chunks: "buffer list") (stderr_chunks: "buffer list") (exit_status: int)

datatype error =
  CommandError jsstring
| LaunchError
| TypeError

text \<open>
  The platform a query runs on: \<open>spawn cmd args cwd\<close> is the outcome of the child
  process at the time of the call, \<open>toString\<close> is \<open>Buffer.prototype.toString\<close> (the
  decoding of UTF-8 bytes to a string) and \<open>relative\<close> is \<open>Path.relative\<close>. None of the
  three is code of the repository; they are parameters of the model.
\<close>

record host =
  spawn :: "jsstring \<Rightarrow> jsstring list \<Rightarrow> jsstring option \<Rightarrow> proc_outcome"
  toString :: "buffer \<Rightarrow> jsstring"
  relative :: "jsstring \<Rightarrow> jsstring \<Rightarrow> jsstring"

text \<open>\<open>exec(cmd, args, cwd)\<close>: the promise rejects (\<open>Inl\<close>) or resolves (\<open>Inr\<close>).
  \<open>Buffer.concat\<close> is \<open>concat\<close>.\<close>

definition exec :: "host \<Rightarrow> jsstring \<Rightarrow> jsstring list \<Rightarrow> jsstring option \<Rightarrow> error + jsstring list" where
  "exec h cmd args cwd =
     (case spawn h cmd args cwd of
        SpawnFailed \<Rightarrow> Inl LaunchError
      | Closed out err st \<Rightarrow>
          if length err > 0 then Inl (CommandError (toString h (concat err)))
          else Inr (split LF (toString h (concat out))))"

section \<open>The Git change source\<close>

text \<open>Array destructuring reads an index past the end as \<open>undefined\<close>.\<close>

definition element :: "'a list \<Rightarrow> nat \<Rightarrow> 'a option" where
  "element xs i = (if i < length xs then Some (xs ! i) else None)"

text \<open>The property key of \<open>changes[k]\<close>: \<open>undefined\<close> is converted to the string
  \<open>undefined\<close>.\<close>

definition property_key :: "jsstring option \<Rightarrow> jsstring" where
  "property_key k = (case k of None \<Rightarrow> js ''undefined'' | Some s \<Rightarrow> s)"

text \<open>
  The assignment \<open>changes[k] = v\<close> of a boolean \<open>v\<close> on an object created by \<open>{}\<close>.
  For every key but one it creates or overwrites the own property \<open>k\<close>. The key
  \<open>__proto__\<close>, when the object has no own property of that name, reaches the
  accessor the object inherits from \<open>Object.prototype\<close>; its setter ignores a value
  that is neither an object nor \<open>null\<close>, so the assignment changes nothing.
\<close>

definition PROTO :: jsstring where
  "PROTO = js ''__proto__''"

definition put_property :: "changes \<Rightarrow> jsstring \<Rightarrow> bool \<Rightarrow> changes" where
  "put_property changes k v =
     (if k = PROTO \<and> changes k = None then changes else changes(k \<mapsto> v))"

text \<open>
  The body of the \<open>forEach\<close> of \<open>getChangesSince\<close> for one entry. Calling
  \<open>correctExtendedChars\<close> on \<open>undefined\<close> (an entry without a tab) throws a TypeError,
  as reading \<open>code[0]\<close> of \<open>undefined\<close> would. \<open>code[0] === 'R'\<close> compares the first
  code unit of \<open>code\<close>, if there is one, with the letter R.
\<close>

definition diff_entry :: "changes \<Rightarrow> jsstring \<Rightarrow> error + changes" where
  "diff_entry changes entry =
     (let fields = split TAB entry;
          code = element fields 0;
          from_path = element fields 1;
          to_path = element fields 2
      in case from_path of
           None \<Rightarrow> Inl TypeError
         | Some f \<Rightarrow>
             (let from_key = correctExtendedChars f
              in case code of
                   None \<Rightarrow> Inl TypeError
                 | Some c \<Rightarrow>
                     if element c 0 = Some LETTER_R
                     then Inr (put_property (put_property changes from_key False)
                                 (property_key to_path) True)
                     else Inr (put_property changes from_key (c \<noteq> js ''D''))))"

text \<open>\<open>entries.forEach\<close>: an exception thrown by the body ends the loop.\<close>

fun forEach_entry :: "changes \<Rightarrow> jsstring list \<Rightarrow> error + changes" where
  "forEach_entry changes [] = Inr changes"
| "forEach_entry changes (entry # entries) =
     (case diff_entry changes entry of
        Inl e \<Rightarrow> Inl e
      | Inr changes' \<Rightarrow> forEach_entry changes' entries)"




text \<open>The \<open>forEach\<close> of both \<open>listActive\<close> functions: \<open>changes[file] = true\<close>.\<close>

definition mark_active :: "jsstring list \<Rightarrow> changes" where
  "mark_active files = fold (\<lambda>file changes. put_property changes file True) files Map.empty"



section \<open>The file change source\<close>

definition file_listActive :: "host \<Rightarrow> jsstring \<Rightarrow> error + changes" where
  "file_listActive h path =
     (case exec h (js ''find'') [path, js ''-type'', js ''f''] None of
        Inl e \<Rightarrow> Inl e
      | Inr files \<Rightarrow>
          Inr (mark_active (map (relative h path) (filter (\<lambda>file. length file > 0) files))))"

text \<open>
  The \<open>for ... in\<close> loop at the start of \<open>getChanges\<close>, on every key of the object:
  an entry whose status is \<open>false\<close> is deleted, every other entry is set to \<open>false\<close>.
\<close>

definition prepare_rewrite :: "changes \<Rightarrow> changes" where
  "prepare_rewrite changes =
     (\<lambda>path. case changes path of
                None \<Rightarrow> None
              | Some status \<Rightarrow> if status = False then None else Some False)"

text \<open>
  \<open>getChanges()\<close> of the file source, on the object \<open>changes\<close> that \<open>openFileSource\<close>
  creates empty and the closure keeps: the outcome of the promise, and the object after
  the call. The loop runs before \<open>listActive\<close> is awaited, so its effect stays when
  the promise rejects. \<open>Object.assign(changes, active)\<close> is \<open>changes ++ active\<close>
  (\<open>active\<close>, made by \<open>listActive\<close>, never holds the key \<open>__proto__\<close>, so each of its
  assignments creates or overwrites an own property); the promise resolves to the
  object itself.
\<close>

definition file_getChanges :: "host \<Rightarrow> jsstring \<Rightarrow> changes \<Rightarrow> (error + changes) \<times> changes" where
  "file_getChanges h path changes =
     (let changes1 = prepare_rewrite changes
      in case file_listActive h path of
           Inl e \<Rightarrow> (Inl e, changes1)
         | Inr active \<Rightarrow> (Inr (changes1 ++ active), changes1 ++ active))"

text \<open>The object after a sequence of queries, one host per query, and whether every
  query of the sequence resolved.\<close>

fun file_queries :: "jsstring \<Rightarrow> host list \<Rightarrow> changes \<Rightarrow> changes" where
  "file_queries path [] changes = changes"
| "file_queries path (h # hs) changes = file_queries path hs (snd (file_getChanges h path changes))"

fun all_resolve :: "jsstring \<Rightarrow> host list \<Rightarrow> bool" where
  "all_resolve path [] = True"
| "all_resolve path (h # hs) = (\<not> isl (file_listActive h path) \<and> all_resolve path hs)"

section \<open>Filename normalization in the words of the specification\<close>

text \<open>
  The specification describes the normalization as: when the string starts and ends
  with a double quote, strip both quotes and replace every backslash followed by three
  octal digits with the value those digits encode in radix 8; any other string is
  returned as it is. The two definitions below follow these words, for comparison
  with \<open>correctExtendedChars\<close>. An escape is the backslash and the three digits
  after it, whatever follows them. The specification gives the range 0 to 255 for the
  value; three octal digits from 400 on encode no byte, and the definition takes their
  value as it is.
\<close>

fun spec_unescape :: "jsstring \<Rightarrow> jsstring" where
  "spec_unescape (b # d1 # d2 # d3 # rest) =
     (if b = BACKSLASH \<and> is_octal_digit d1 \<and> is_octal_digit d2 \<and> is_octal_digit d3
      then of_nat (64 * digit_value d1 + 8 * digit_value d2 + digit_value d3) # spec_unescape rest
      else b # spec_unescape (d1 # d2 # d3 # rest))"
| "spec_unescape s = s"

definition spec_normalize :: "jsstring \<Rightarrow> jsstring" where
  "spec_normalize s =
     (if s \<noteq> [] \<and> hd s = DQUOTE \<and> last s = DQUOTE then spec_unescape (butlast (tl s)) else s)"

section \<open>Hosts and inputs of the worked examples\<close>

text \<open>
  The examples run on a host where every command has the same given outcome, where
  the buffers hold ASCII only (so decoding maps each byte to the code unit of the same
  value), and where the files listed lie under the root directory (so the relative
  path is the listed path without the root and the separator after it).
\<close>

definition ascii :: "string \<Rightarrow> buffer" where
  "ascii s = map of_char s"

definition example_host :: "proc_outcome \<Rightarrow> host" where
  "example_host outcome =
     \<lparr>spawn = (\<lambda>cmd args cwd. outcome), toString = map ucast,
      relative = (\<lambda>from_dir to_file. drop (Suc (length from_dir)) to_file)\<rparr>"

text \<open>\<open>find\<close> writes to the error stream and exits with status 1; \<open>find\<close> prints the
  given text; the directory holds no file; the directory holds the one file \<open>a\<close>.\<close>

definition find_fails :: host where
  "find_fails = example_host (Closed [] [ascii ''find: /r: Permission denied'', [10]] 1)"

definition find_prints :: "string \<Rightarrow> host" where
  "find_prints text = example_host (Closed [ascii text] [] 0)"

definition no_files :: host where
  "no_files = find_prints []"

definition file_a :: host where
  "file_a = find_prints ''/r/a\<newline>''"

definition tracked_a :: changes where
  "tracked_a = [js ''a'' \<mapsto> True]"



text \<open>Paths as Git quotes them, and diff entries.\<close>

definition quoted :: "jsstring \<Rightarrow> jsstring" where
  "quoted s = DQUOTE # s @ [DQUOTE]"

definition cafe_escaped :: jsstring where
  "cafe_escaped = quoted (js ''caf'' @ BACKSLASH # js ''303'' @ BACKSLASH # js ''251.txt'')"

definition backslash_389 :: jsstring where
  "backslash_389 = quoted (BACKSLASH # BACKSLASH # js ''389'')"




definition quoted_b :: jsstring where
  "quoted_b = quoted (js ''b'' @ BACKSLASH # js ''303'' @ BACKSLASH # js ''251'')"

definition quoted_rename_entry :: jsstring where
  "quoted_rename_entry =
     js ''R100'' @ TAB # quoted (js ''a'' @ BACKSLASH # js ''303'' @ BACKSLASH # js ''251'')
       @ TAB # quoted_b"





section \<open>Auxiliary facts\<close>

lemmas normalize_defs =
  correctExtendedChars_def charCodeAt_def slice_def slice_index_def slice_from_def
  octetToStr_def fromCharCode_def parseInt8_def is_digit_def is_octal_digit_def digit_value_def

lemmas example_defs =
  example_host_def ascii_def js_def

subsection \<open>The command runner\<close>

lemma exec_rejects:
  assumes "spawn h cmd args cwd = Closed out err st" and "concat err \<noteq> []"
  shows "exec h cmd args cwd = Inl (CommandError (toString h (concat err)))"
proof -
  from assms(2) have "err \<noteq> []" by auto
  with assms(1) show ?thesis by (simp add: exec_def)
qed


lemma exec_launch_error:
  "spawn h cmd args cwd = SpawnFailed \<Longrightarrow> exec h cmd args cwd = Inl LaunchError"
  by (simp add: exec_def)


lemma split_not_Nil: "split sep s \<noteq> []"
  by (induction s) (auto split: list.splits)

subsection \<open>Maps of active files\<close>

lemma put_property_apply:
  "put_property m f v k =
     (if k = f \<and> (f \<noteq> PROTO \<or> m f \<noteq> None) then Some v else m k)"
  by (auto simp: put_property_def)

lemma fold_mark_active:
  "fold (\<lambda>file changes. put_property changes file True) files m k =
     (if k \<in> set files \<and> (k \<noteq> PROTO \<or> m k \<noteq> None) then Some True else m k)"
proof (induction files arbitrary: m)
  case Nil
  then show ?case by simp
next
  case (Cons f fs)
  have "fold (\<lambda>file changes. put_property changes file True) (f # fs) m k =
      fold (\<lambda>file changes. put_property changes file True) fs (put_property m f True) k"
    by simp
  also have "\<dots> = (if k \<in> set fs \<and> (k \<noteq> PROTO \<or> put_property m f True k \<noteq> None)
      then Some True else put_property m f True k)"
    by (rule Cons.IH)
  also have "\<dots> = (if k \<in> set (f # fs) \<and> (k \<noteq> PROTO \<or> m k \<noteq> None)
      then Some True else m k)"
    unfolding put_property_apply by (cases "k = f") auto
  finally show ?case .
qed

lemma mark_active_apply:
  "mark_active files k = (if k \<in> set files \<and> k \<noteq> PROTO then Some True else None)"
  by (simp add: mark_active_def fold_mark_active)


lemma file_listActive_values:
  "file_listActive h path = Inr active \<Longrightarrow> active p = Some v \<Longrightarrow> v = True"
  by (auto simp: file_listActive_def mark_active_apply split: sum.splits if_splits)

subsection \<open>The assignments of a diff query\<close>





subsection \<open>One query of the file source\<close>

lemma prepare_rewrite_apply:
  "prepare_rewrite changes p = (if changes p = Some True then Some False else None)"
  by (auto simp: prepare_rewrite_def split: option.splits)

lemma file_getChanges_resolved:
  "file_listActive h path = Inr active \<Longrightarrow>
     file_getChanges h path changes =
       (Inr (prepare_rewrite changes ++ active), prepare_rewrite changes ++ active)"
  by (simp add: file_getChanges_def Let_def)

lemma file_getChanges_rejected:
  "file_listActive h path = Inl e \<Longrightarrow>
     file_getChanges h path changes = (Inl e, prepare_rewrite changes)"
  by (simp add: file_getChanges_def)

lemma resolved_apply:
  assumes "file_listActive h path = Inr active"
  shows "snd (file_getChanges h path changes) p =
     (if active p \<noteq> None then Some True
      else if changes p = Some True then Some False else None)"
proof (cases "active p")
  case None
  then show ?thesis
    using assms by (simp add: file_getChanges_resolved map_add_def prepare_rewrite_apply)
next
  case (Some v)
  with assms have "v = True" by (rule file_listActive_values)
  with Some show ?thesis
    using assms by (simp add: file_getChanges_resolved map_add_def)
qed

lemma file_queries_snoc:
  "file_queries path (hs @ [h]) changes =
     snd (file_getChanges h path (file_queries path hs changes))"
  by (induction hs arbitrary: changes) simp_all

lemma all_resolve_snoc:
  "all_resolve path (hs @ [h]) = (all_resolve path hs \<and> \<not> isl (file_listActive h path))"
  by (induction hs) auto

lemma file_a_listActive: "file_listActive file_a (js ''/r'') = Inr [js ''a'' \<mapsto> True]"
  by (simp add: file_listActive_def exec_def mark_active_def put_property_def PROTO_def
      file_a_def find_prints_def example_defs)

lemma no_files_listActive: "file_listActive no_files (js ''/r'') = Inr Map.empty"
  by (simp add: file_listActive_def exec_def mark_active_def put_property_def no_files_def
      find_prints_def example_defs)

subsection \<open>Where the normalization of the code and of the specification agree\<close>

lemma octal_digit_iff:
  "is_octal_digit c \<longleftrightarrow> is_digit c \<and> c \<noteq> 0x38 \<and> c \<noteq> 0x39"
  unfolding is_octal_digit_def is_digit_def
  by (auto simp: word_le_nat_alt word_unat_eq_iff)

lemma octetToStr_octal:
  assumes "is_octal_digit d1" "is_octal_digit d2" "is_octal_digit d3"
  shows "octetToStr [b, d1, d2, d3] =
     [of_nat (64 * digit_value d1 + 8 * digit_value d2 + digit_value d3)]"
  using assms
  by (simp add: octetToStr_def slice_from_def slice_index_def parseInt8_def fromCharCode_def)

lemma replace_octets_spec:
  "\<forall>c \<in> set s. c \<noteq> 0x38 \<and> c \<noteq> 0x39 \<Longrightarrow> replace_octets s = spec_unescape s"
proof (induction s rule: replace_octets.induct)
  case (1 b d1 d2 d3 rest)
  then show ?case
    by (auto simp: octal_digit_iff octetToStr_octal)
qed simp_all

lemma quote_test:
  "(charCodeAt s 0 = Some DQUOTE \<and> charCodeAt s (int (length s) - 1) = Some DQUOTE)
     \<longleftrightarrow> (s \<noteq> [] \<and> hd s = DQUOTE \<and> last s = DQUOTE)"
  by (cases s) (auto simp: charCodeAt_def hd_conv_nth last_conv_nth)

lemma slice_strip:
  "s \<noteq> [] \<Longrightarrow> slice s 1 (- 1) = butlast (tl s)"
  by (cases s) (auto simp: slice_def slice_index_def Let_def butlast_conv_take)

lemma correctExtendedChars_quoted:
  "correctExtendedChars s =
     (if s \<noteq> [] \<and> hd s = DQUOTE \<and> last s = DQUOTE then replace_octets (butlast (tl s)) else s)"
  unfolding correctExtendedChars_def quote_test
  by (simp add: slice_strip)

text \<open>On every string without the digits 8 and 9 the code computes what the
  specification words; an unquoted string is returned unchanged by both.\<close>

lemma normalization_agrees:
  assumes "\<forall>c \<in> set s. c \<noteq> 0x38 \<and> c \<noteq> 0x39"
  shows "correctExtendedChars s = spec_normalize s"
proof -
  have "set (butlast (tl s)) \<subseteq> set s"
    by (cases s) (auto dest: in_set_butlastD)
  with assms have "\<forall>c \<in> set (butlast (tl s)). c \<noteq> 0x38 \<and> c \<noteq> 0x39"
    by blast
  then have "replace_octets (butlast (tl s)) = spec_unescape (butlast (tl s))"
    by (rule replace_octets_spec)
  then show ?thesis
    unfolding correctExtendedChars_quoted spec_normalize_def by simp
qed

lemma correctExtendedChars_unquoted:
  "s = [] \<or> hd s \<noteq> DQUOTE \<or> last s \<noteq> DQUOTE \<Longrightarrow> correctExtendedChars s = s"
  unfolding correctExtendedChars_quoted by auto

lemma correctExtendedChars_cafe:
  "correctExtendedChars cafe_escaped = js ''caf'' @ [0xC3, 0xA9] @ js ''.txt''"
  by (simp add: cafe_escaped_def quoted_def js_def normalize_defs)

section \<open>The file change source when the enumeration fails\<close>

text \<open>
  Claim C1, as amended. When the \<open>find\<close> command of a query of the file source
  writes anything to its error stream, the query fails with the text of the error
  stream, and the map \<open>tracked\<close> (the object \<open>changes\<close> of the closure) is left as the
  loop at the start of the call made it: every entry that was \<open>false\<close> is removed and
  every entry that was \<open>true\<close> is now \<open>false\<close>. The map is not restored to what it
  was before the call.
\<close>

theorem file_getChanges_failure:
  assumes "spawn h (js ''find'') [path, js ''-type'', js ''f''] None = Closed out err st"
      and "concat err \<noteq> []"
  shows "file_getChanges h path changes =
           (Inl (CommandError (toString h (concat err))), prepare_rewrite changes)
         \<and> (\<forall>p. prepare_rewrite changes p = (if changes p = Some True then Some False else None))"
proof -
  have "file_listActive h path = Inl (CommandError (toString h (concat err)))"
    using exec_rejects [OF assms] by (simp add: file_listActive_def)
  then show ?thesis
    by (simp add: file_getChanges_rejected prepare_rewrite_apply)
qed

theorem file_getChanges_failure_witness:
  "fst (file_getChanges find_fails (js ''/r'') tracked_a) =
     Inl (CommandError (js ''find: /r: Permission denied'' @ [LF]))
   \<and> snd (file_getChanges find_fails (js ''/r'') tracked_a) (js ''a'') = Some False"
proof -
  have sp: "spawn find_fails (js ''find'') [js ''/r'', js ''-type'', js ''f''] None =
      Closed [] [ascii ''find: /r: Permission denied'', [10]] 1"
    by (simp add: find_fails_def example_host_def)
  have ne: "concat [ascii ''find: /r: Permission denied'', [10]] \<noteq> []"
    by (simp add: ascii_def)
  show ?thesis
    using file_getChanges_failure [OF sp ne, of tracked_a]
    by (simp add: find_fails_def tracked_a_def example_defs)
qed

text \<open>
  The claim as it was stated (a failed query leaves \<open>tracked\<close> exactly as it was) is
  false: with the file \<open>a\<close> tracked as \<open>true\<close>, a query whose \<open>find\<close> fails rejects
  and leaves \<open>a\<close> tracked as \<open>false\<close>.
\<close>

theorem file_getChanges_failure_not_atomic:
  "isl (fst (file_getChanges find_fails (js ''/r'') tracked_a))
   \<and> tracked_a (js ''a'') = Some True
   \<and> snd (file_getChanges find_fails (js ''/r'') tracked_a) (js ''a'') = Some False
   \<and> snd (file_getChanges find_fails (js ''/r'') tracked_a) \<noteq> tracked_a"
proof -
  have q: "file_getChanges find_fails (js ''/r'') tracked_a =
      (Inl (CommandError (js ''find: /r: Permission denied'' @ [LF])), prepare_rewrite tracked_a)"
    by (simp add: file_getChanges_def file_listActive_def exec_def find_fails_def example_defs)
  have t: "tracked_a (js ''a'') = Some True"
    by (simp add: tracked_a_def)
  then have f: "prepare_rewrite tracked_a (js ''a'') = Some False"
    by (simp add: prepare_rewrite_apply)
  with t have "prepare_rewrite tracked_a \<noteq> tracked_a"
    by (metis option.inject)
  with q t f show ?thesis
    by simp
qed

section \<open>The Git change source\<close>

text \<open>
  Claim C2. Every path taken from the output of Git is normalized before it becomes a
  key of the returned map, the \<open>to\<close> path of a rename entry included. The code does not
  do this for the \<open>to\<close> path: in the entry
  \<open>R100 <tab> "a\303\251" <tab> "b\303\251"\<close> the \<open>from\<close> path becomes the key
  \<open>a\<close> followed by the code units 0xC3 and 0xA9, but the \<open>to\<close> path becomes a key as
  it stands, with its quotes and escapes, and its normalized form is not a key.
\<close>

theorem diff_entry_to_path_not_normalized:
  "forEach_entry Map.empty [quoted_rename_entry] =
     Inr [js ''a'' @ [0xC3, 0xA9] \<mapsto> False, quoted_b \<mapsto> True]
   \<and> correctExtendedChars quoted_b = js ''b'' @ [0xC3, 0xA9]
   \<and> correctExtendedChars quoted_b \<noteq> quoted_b"
  by (simp add: quoted_rename_entry_def quoted_b_def quoted_def diff_entry_def element_def
      property_key_def put_property_def PROTO_def js_def normalize_defs)




section \<open>The life cycle of a path in the file change source\<close>

text \<open>
  Claim C4. A path that the map holds as \<open>true\<close> after query N and that the scan of
  query N+1 does not list is reported \<open>false\<close> by query N+1. Query N+2 does not report
  it at all if its scan does not list the path either; if that scan lists the path
  again, query N+2 reports it \<open>true\<close>. Either way query N+2 reports for the path what
  a freshly opened source would report on the same scan.
\<close>

theorem file_deletion_protocol:
  assumes "changes p = Some True"
      and "file_listActive h1 path = Inr active1" and "active1 p = None"
      and "file_listActive h2 path = Inr active2"
  shows "\<exists>changes1 changes2.
           file_getChanges h1 path changes = (Inr changes1, changes1)
         \<and> file_getChanges h2 path changes1 = (Inr changes2, changes2)
         \<and> changes1 p = Some False
         \<and> changes2 p = (if active2 p = None then None else Some True)
         \<and> changes2 p = snd (file_getChanges h2 path Map.empty) p"
proof -
  let ?c1 = "prepare_rewrite changes ++ active1"
  let ?c2 = "prepare_rewrite ?c1 ++ active2"
  have q1: "file_getChanges h1 path changes = (Inr ?c1, ?c1)"
    using assms(2) by (rule file_getChanges_resolved)
  have q2: "file_getChanges h2 path ?c1 = (Inr ?c2, ?c2)"
    using assms(4) by (rule file_getChanges_resolved)
  have r1: "?c1 p = Some False"
    using resolved_apply [OF assms(2), of changes p] assms(1,3) q1 by simp
  have r2: "?c2 p = (if active2 p = None then None else Some True)"
    using resolved_apply [OF assms(4), of ?c1 p] r1 q2 by simp
  have r3: "snd (file_getChanges h2 path Map.empty) p =
      (if active2 p = None then None else Some True)"
    using resolved_apply [OF assms(4), of Map.empty p] by simp
  from q1 q2 r1 r2 r3 show ?thesis by simp
qed

theorem file_deletion_protocol_witness:
  "snd (file_getChanges no_files (js ''/r'') tracked_a) (js ''a'') = Some False
   \<and> snd (file_getChanges no_files (js ''/r'')
            (snd (file_getChanges no_files (js ''/r'') tracked_a))) (js ''a'') = None
   \<and> snd (file_getChanges file_a (js ''/r'')
            (snd (file_getChanges no_files (js ''/r'') tracked_a))) (js ''a'') = Some True"
proof -
  have t: "tracked_a (js ''a'') = Some True"
    by (simp add: tracked_a_def)
  show ?thesis
    using file_deletion_protocol [of tracked_a "js ''a''" no_files "js ''/r''" Map.empty
        no_files Map.empty]
      file_deletion_protocol [of tracked_a "js ''a''" no_files "js ''/r''" Map.empty
        file_a "[js ''a'' \<mapsto> True]"]
      t no_files_listActive file_a_listActive
    by auto
qed

text \<open>
  Claim C5. The map of the file source never holds a path as \<open>false\<close> after two
  queries in a row. In the state reached from the empty map of a freshly opened source
  by any sequence of successful queries, an entry that is \<open>false\<close> is removed by the
  loop at the start of the next query, and after that query (when it succeeds too) the
  path is not \<open>false\<close>: a deletion is reported once.
\<close>

theorem file_false_at_most_once:
  assumes "all_resolve path (hs @ [h])"
      and "file_queries path hs Map.empty p = Some False"
  shows "prepare_rewrite (file_queries path hs Map.empty) p = None
       \<and> file_queries path (hs @ [h]) Map.empty p \<noteq> Some False"
proof -
  from assms(1) have "\<not> isl (file_listActive h path)"
    by (simp add: all_resolve_snoc)
  then obtain active where a: "file_listActive h path = Inr active"
    by (cases "file_listActive h path") auto
  have "file_queries path (hs @ [h]) Map.empty p =
      (if active p \<noteq> None then Some True else None)"
    using resolved_apply [OF a, of "file_queries path hs Map.empty" p] assms(2)
    by (simp add: file_queries_snoc)
  with assms(2) show ?thesis
    by (simp add: prepare_rewrite_apply)
qed

theorem file_false_at_most_once_witness:
  "all_resolve (js ''/r'') ([file_a, no_files] @ [no_files])
   \<and> file_queries (js ''/r'') [file_a] Map.empty (js ''a'') = Some True
   \<and> file_queries (js ''/r'') [file_a, no_files] Map.empty (js ''a'') = Some False
   \<and> file_queries (js ''/r'') ([file_a, no_files] @ [no_files]) Map.empty (js ''a'') = None"
proof -
  have r: "all_resolve (js ''/r'') ([file_a, no_files] @ [no_files])"
    by (simp add: file_a_listActive no_files_listActive)
  have t: "file_queries (js ''/r'') [file_a] Map.empty (js ''a'') = Some True"
    by (simp add: file_getChanges_resolved [OF file_a_listActive])
  have f: "file_queries (js ''/r'') [file_a, no_files] Map.empty (js ''a'') = Some False"
    by (simp add: file_getChanges_resolved [OF file_a_listActive]
        file_getChanges_resolved [OF no_files_listActive] prepare_rewrite_apply)
  have n: "file_queries (js ''/r'') ([file_a, no_files] @ [no_files]) Map.empty (js ''a'') = None"
    using file_false_at_most_once [OF r f]
    by (simp add: file_getChanges_resolved [OF file_a_listActive]
        file_getChanges_resolved [OF no_files_listActive] prepare_rewrite_apply)
  from r t f n show ?thesis by blast
qed



section \<open>Filename normalization\<close>

text \<open>
  Claim C7. Normalization strips the two quotes of a quoted path and replaces every
  backslash followed by three octal digits with the value they encode; an unquoted
  path is returned unchanged. The pattern of the code takes any three decimal digits
  after a backslash, and \<open>parseInt\<close> in radix 8 reads the octal prefix of what was
  matched. So the quoted path \<open>"\\389"\<close> (how Git prints the file name \<open>\389\<close>), in
  which no backslash is followed by three octal digits, is stripped of its quotes and
  otherwise unchanged in the words of the specification, while the code turns the last
  four code units into the one code unit 3.
\<close>

theorem correctExtendedChars_decimal_digits:
  "correctExtendedChars backslash_389 = [BACKSLASH, 3]
   \<and> spec_normalize backslash_389 = BACKSLASH # BACKSLASH # js ''389''"
  by (simp add: backslash_389_def quoted_def js_def normalize_defs spec_normalize_def)

section \<open>Listing mode and the command runner\<close>






section \<open>The path of one double quote\<close>

text \<open>
  Claim C10. Normalizing the string that consists of one double quote gives the empty
  string: that code unit is read both as the opening and as the closing quote, since
  the test compares the first and the last code unit and does not look at the length.
  A line of the listing that is one double quote therefore becomes the key that is the
  empty string.
\<close>

theorem correctExtendedChars_lone_quote:
  "correctExtendedChars [DQUOTE] = []
   \<and> mark_active (map correctExtendedChars (filter (\<lambda>file. length file > 0) [[DQUOTE]])) =
       [[] \<mapsto> True]"
  by (simp add: correctExtendedChars_def charCodeAt_def slice_def slice_index_def mark_active_def
      put_property_def PROTO_def js_def)

end
